theory Spec2Isabelle
  imports Main "HOL-Library.AList"
begin

section \<open>JavaScript values used by the manifest generator\<close>

text \<open>
  A plain object used as \<^verbatim>\<open>Record<string, V>\<close> is an association list in insertion
  order with one entry per key: \<^verbatim>\<open>r[k] = v\<close> is \<^const>\<open>AList.update\<close> (an existing key keeps
  its position, a new one goes to the end), \<^verbatim>\<open>r[k]\<close> is \<^const>\<open>map_of\<close>, \<^verbatim>\<open>Object.entries\<close>
  is the list itself and \<^verbatim>\<open>Object.keys\<close> is \<open>map fst\<close>. Keys are taken not to be
  integer-like and not to be members of \<^verbatim>\<open>Object.prototype\<close>. Strings are lists of
  \<^typ>\<open>char\<close>: ASCII text as it is, any other character as the bytes of its UTF-8
  encoding. \<^verbatim>\<open>String.prototype.toLowerCase\<close> belongs to the runtime and not to the program:
  the functions that call it take it as a parameter (\<open>lower\<close>, or the field
  \<open>lowerCase\<close> of the host), so that nothing proved below depends on how a character
  beyond ASCII is lower-cased. The length test of \<open>redactValue\<close> and the blank test
  \<open>isBlank\<close> are those of ASCII text.
\<close>

type_synonym 'v Record = "(string \<times> 'v) list"

text \<open>\<^verbatim>\<open>xs[i]\<close>: reading past the end of an array gives \<^verbatim>\<open>undefined\<close>.\<close>

definition at :: "'a list \<Rightarrow> nat \<Rightarrow> 'a option" where
  "at xs i = (if i < length xs then Some (xs ! i) else None)"

text \<open>\<^verbatim>\<open>x || ''\<close> on a possibly undefined string.\<close>

fun orEmpty :: "string option \<Rightarrow> string" where
  "orEmpty None = []"
| "orEmpty (Some s) = s"

text \<open>\<^verbatim>\<open>`${x}`\<close> on a possibly undefined string.\<close>

fun interpolate :: "string option \<Rightarrow> string" where
  "interpolate None = ''undefined''"
| "interpolate (Some s) = s"

text \<open>Truthiness of a possibly undefined string: defined and not empty.\<close>

fun truthy :: "string option \<Rightarrow> bool" where
  "truthy None = False"
| "truthy (Some s) = (s \<noteq> [])"

text \<open>\<^verbatim>\<open>parts.join(sep)\<close>.\<close>

fun join :: "string \<Rightarrow> string list \<Rightarrow> string" where
  "join sep [] = []"
| "join sep [p] = p"
| "join sep (p # q # ps) = p @ sep @ join sep (q # ps)"

text \<open>The lower-casing used in the examples, which are ASCII text: the letters A to Z are
  mapped, every other character is kept.\<close>

definition asciiLowerChar :: "char \<Rightarrow> char" where
  "asciiLowerChar c =
     (case map_of (zip ''ABCDEFGHIJKLMNOPQRSTUVWXYZ'' ''abcdefghijklmnopqrstuvwxyz'') c of
        None \<Rightarrow> c | Some l \<Rightarrow> l)"

definition asciiLowerCase :: "string \<Rightarrow> string" where
  "asciiLowerCase s = map asciiLowerChar s"

text \<open>\<^verbatim>\<open>{ ...a, ...b }\<close>: the entries of \<open>b\<close> are written over a copy of \<open>a\<close>.\<close>

definition spread :: "'v Record \<Rightarrow> 'v Record \<Rightarrow> 'v Record" where
  "spread a b = fold (\<lambda>(k, v) acc. AList.update k v acc) b a"

section \<open>Data model of \<^verbatim>\<open>generate.ts\<close>\<close>

text \<open>The argument of \<^verbatim>\<open>generateCartesianProduct\<close>:
  \<^verbatim>\<open>{ name: string; choices?: string[] }\<close>.\<close>

record ProductDim =
  pd_name :: string
  pd_choices :: "string list option"

text \<open>The argument of the two combination generators:
  \<^verbatim>\<open>{ name: string; choices: string[]; dependsOn?: Record<string, string[]> }\<close>
  (\<^verbatim>\<open>generateMatrixCombinations\<close> declares and reads only the first two fields).\<close>

record EnvVarChoices =
  var_name :: string
  var_choices :: "string list"
  var_dependsOn :: "string list Record option"

record Combination =
  name :: string
  envKeys :: "string list"
  argNames :: "string list"
  defaults :: "string Record"
  argDefaults :: "string Record"
  dimensionValues :: "string Record"

section \<open>The dependency evaluator\<close>

text \<open>The loop of \<^verbatim>\<open>shouldPromptEnvVar\<close> over \<^verbatim>\<open>Object.entries(envVar.dependsOn)\<close>: it
  returns false at the first dependency whose selected value is undefined, empty or not
  among the allowed values.\<close>

fun dependenciesHold :: "string list Record \<Rightarrow> string Record \<Rightarrow> bool" where
  "dependenciesHold [] selectedValues = True"
| "dependenciesHold ((depName, allowedValues) # deps) selectedValues =
     (let selectedValue = map_of selectedValues depName in
      if \<not> truthy selectedValue \<or> orEmpty selectedValue \<notin> set allowedValues then False
      else dependenciesHold deps selectedValues)"

text \<open>\<^verbatim>\<open>shouldPromptEnvVar(envVar, selectedValues)\<close> reads only \<^verbatim>\<open>envVar.dependsOn\<close>, which
  is what the model takes.\<close>

definition shouldPromptEnvVar :: "string list Record option \<Rightarrow> string Record \<Rightarrow> bool" where
  "shouldPromptEnvVar dependsOn selectedValues =
     (case dependsOn of
        None \<Rightarrow> True
      | Some deps \<Rightarrow> dependenciesHold deps selectedValues)"

section \<open>The combination generators\<close>

fun generateCartesianProduct :: "ProductDim list \<Rightarrow> string list list" where
  "generateCartesianProduct [] = [[]]"
| "generateCartesianProduct (first # rest) =
     (case pd_choices first of
        None \<Rightarrow> [[]]
      | Some cs \<Rightarrow>
          if cs = [] then [[]]
          else if rest = [] then map (\<lambda>c. [c]) cs
          else (let restProduct = generateCartesianProduct rest in
                concat (map (\<lambda>choice. map (\<lambda>restCombination. choice # restCombination)
                                          restProduct) cs)))"

text \<open>\<^verbatim>\<open>dims.forEach((dim, i) => { acc[dim.name] = values[i] || '' })\<close>, the loop that
  fills \<^verbatim>\<open>dimensionValues\<close>, \<^verbatim>\<open>baseDimensionValues\<close> and \<^verbatim>\<open>fullDimensionValues\<close>.\<close>

definition assignValues :: "string list \<Rightarrow> string list \<Rightarrow> string Record \<Rightarrow> string Record" where
  "assignValues names values acc =
     fold (\<lambda>(i, n) acc. AList.update n (orEmpty (at values i)) acc) (enumerate 0 names) acc"

definition generateMatrixCombinations ::
  "(string \<Rightarrow> string) \<Rightarrow> EnvVarChoices list \<Rightarrow> Combination list" where
  "generateMatrixCombinations lower envVars =
     (let dimensions = map (\<lambda>e. \<lparr>pd_name = var_name e, pd_choices = Some (var_choices e)\<rparr>) envVars;
          product = generateCartesianProduct dimensions
      in map (\<lambda>values.
           let dimensionValues = assignValues (map pd_name dimensions) values [];
               nameParts = map (\<lambda>(i, dim). lower (pd_name dim) @ ''-'' @ interpolate (at values i))
                               (enumerate 0 dimensions)
           in \<lparr>name = (if nameParts \<noteq> [] then join ''_'' nameParts else ''minimal''),
               envKeys = map pd_name dimensions,
               argNames = [],
               defaults = [],
               argDefaults = [],
               dimensionValues = dimensionValues\<rparr>) product)"

text \<open>An \<^verbatim>\<open>EnvVarChoices\<close> object passed where \<^verbatim>\<open>{ name; choices? }\<close> is expected.\<close>

definition asProductDim :: "EnvVarChoices \<Rightarrow> ProductDim" where
  "asProductDim e = \<lparr>pd_name = var_name e, pd_choices = Some (var_choices e)\<rparr>"

text \<open>The body of the loop over \<^verbatim>\<open>primaryProduct\<close> in
  \<^verbatim>\<open>generateConditionalCombinations\<close>: the combinations pushed for one tuple of primary
  values. The elements of \<^verbatim>\<open>envVars\<close> are distinct objects, so
  \<^verbatim>\<open>primaryDims.indexOf(dim)\<close> is the position of \<open>dim\<close> in \<^verbatim>\<open>primaryDims\<close>.\<close>

definition combinationsFor ::
  "(string \<Rightarrow> string) \<Rightarrow> EnvVarChoices list \<Rightarrow> EnvVarChoices list \<Rightarrow> string list
     \<Rightarrow> Combination list" where
  "combinationsFor lower primaryDims conditionalDims primaryValues =
     (let baseDimensionValues = assignValues (map var_name primaryDims) primaryValues [];
          applicableConditionals =
            filter (\<lambda>cond. shouldPromptEnvVar (var_dependsOn cond) baseDimensionValues) conditionalDims
      in if applicableConditionals = [] then
           (let nameParts =
                  map (\<lambda>(i, dim). lower (var_name dim) @ ''-'' @ interpolate (at primaryValues i))
                      (filter (\<lambda>(i, dim). length (var_choices dim) > 1) (enumerate 0 primaryDims))
            in [\<lparr>name = (if nameParts \<noteq> [] then join ''_'' nameParts else ''default''),
                 envKeys = map var_name primaryDims,
                 argNames = [],
                 defaults = [],
                 argDefaults = [],
                 dimensionValues = baseDimensionValues\<rparr>])
         else
           (let conditionalProduct = generateCartesianProduct (map asProductDim applicableConditionals)
            in map (\<lambda>condValues.
                 let fullDimensionValues =
                       assignValues (map var_name applicableConditionals) condValues baseDimensionValues;
                     allDims = primaryDims @ applicableConditionals;
                     nameParts =
                       map (\<lambda>dim. lower (var_name dim) @ ''-''
                                     @ interpolate (map_of fullDimensionValues (var_name dim)))
                           (filter (\<lambda>dim. length (var_choices dim) > 1) allDims)
                 in \<lparr>name = (if nameParts \<noteq> [] then join ''_'' nameParts else ''default''),
                     envKeys = map var_name (primaryDims @ applicableConditionals),
                     argNames = [],
                     defaults = [],
                     argDefaults = [],
                     dimensionValues = fullDimensionValues\<rparr>) conditionalProduct))"

definition generateConditionalCombinations ::
  "(string \<Rightarrow> string) \<Rightarrow> EnvVarChoices list \<Rightarrow> Combination list" where
  "generateConditionalCombinations lower envVars =
     (let primaryDims = filter (\<lambda>e. var_dependsOn e = None) envVars;
          conditionalDims = filter (\<lambda>e. var_dependsOn e \<noteq> None) envVars
      in if primaryDims = [] then
           [\<lparr>name = ''minimal'', envKeys = [], argNames = [], defaults = [],
             argDefaults = [], dimensionValues = []\<rparr>]
         else
           (let primaryProduct = generateCartesianProduct (map asProductDim primaryDims)
            in concat (map (combinationsFor lower primaryDims conditionalDims) primaryProduct)))"

section \<open>Environment variable prompting (\<^verbatim>\<open>env-prompting.ts\<close>)\<close>

text \<open>\<^verbatim>\<open>EnvVarMetadata\<close> and \<^verbatim>\<open>CliArgMetadata\<close> of \<^verbatim>\<open>metadata-reader.ts\<close>. The optional
  \<^verbatim>\<open>isRequired\<close> is only ever tested for truthiness, so an absent one is \<open>False\<close>.\<close>

record EnvVarMetadata =
  ev_name :: string
  ev_value :: "string option"
  ev_default :: "string option"
  ev_description :: string
  ev_placeholder :: "string option"
  ev_choices :: "string list option"
  ev_isRequired :: bool
  ev_isSecret :: bool
  ev_isMandatoryForMatrix :: "bool option"
  ev_dependsOn :: "string list Record option"

record CliArgMetadata =
  arg_name :: string
  arg_value :: "string option"
  arg_description :: "string option"
  arg_choices :: "string list option"

text \<open>The prompt primitives of the terminal library are outside the program. A call is
  recorded as an event and answered by the host; the answer may depend on everything that
  happened before. The flag of a text prompt says whether it is the masked \<^verbatim>\<open>password\<close>
  prompt, its last component whether the validator passed along rejects blank input. The
  host also holds the process environment, whether standard input is a terminal, and the
  lower-casing of the runtime.\<close>

datatype Prompt =
    SelectPrompt string "string list"
  | ActionPrompt string "(string \<times> string) list"
  | TextPrompt bool string "string option" bool
  | ConfirmPrompt string bool

datatype Event = Asked Prompt | Logged string

record Host =
  processEnv :: "string Record"
  isTTY :: bool
  answer :: "Event list \<Rightarrow> Prompt \<Rightarrow> string"
  confirms :: "Event list \<Rightarrow> Prompt \<Rightarrow> bool"
  lowerCase :: "string \<Rightarrow> string"

record PromptOptions =
  yes :: bool
  templateVars :: "string Record option"

type_synonym PromptState = "string Record \<times> Event list"

definition ask :: "Host \<Rightarrow> Prompt \<Rightarrow> Event list \<Rightarrow> string \<times> Event list" where
  "ask host p trace = (answer host trace p, trace @ [Asked p])"

definition askConfirm :: "Host \<Rightarrow> Prompt \<Rightarrow> Event list \<Rightarrow> bool \<times> Event list" where
  "askConfirm host p trace = (confirms host trace p, trace @ [Asked p])"

definition redactValue :: "string \<Rightarrow> bool \<Rightarrow> string" where
  "redactValue v isSecret =
     (if \<not> isSecret then v
      else if length v \<le> 6 then ''XXX''
      else take 4 v @ ''XXX'')"

text \<open>The callback of \<^verbatim>\<open>template.replace(/\{([^}]+)\}/g, ...)\<close>: the first key of the
  variables that equals the token without regard to case gives the replacement.\<close>

definition replaceToken :: "(string \<Rightarrow> string) \<Rightarrow> string Record \<Rightarrow> string \<Rightarrow> string" where
  "replaceToken lower variables varName =
     (case find (\<lambda>k. lower k = lower varName) (map fst variables) of
        None \<Rightarrow> ''{'' @ varName @ ''}''
      | Some key \<Rightarrow>
          if key \<noteq> [] then interpolate (map_of variables key) else ''{'' @ varName @ ''}'')"

text \<open>The scan of the global replace: at an opening brace followed by at least one
  character other than the closing brace and then a closing brace the match is replaced and
  the scan goes on behind it; everywhere else one character is copied.\<close>

function replaceTokens :: "(string \<Rightarrow> string) \<Rightarrow> string Record \<Rightarrow> string \<Rightarrow> string" where
  "replaceTokens lower variables [] = []"
| "replaceTokens lower variables (c # cs) =
     (if c = CHR ''{'' \<and> takeWhile (\<lambda>x. x \<noteq> CHR ''}'') cs \<noteq> []
         \<and> dropWhile (\<lambda>x. x \<noteq> CHR ''}'') cs \<noteq> []
      then replaceToken lower variables (takeWhile (\<lambda>x. x \<noteq> CHR ''}'') cs)
             @ replaceTokens lower variables (tl (dropWhile (\<lambda>x. x \<noteq> CHR ''}'') cs))
      else c # replaceTokens lower variables cs)"
  by pat_completeness auto
termination
proof (relation "measure (\<lambda>(lower, variables, s). length s)")
  show "wf (measure (\<lambda>(lower, variables, s). length s))"
    by simp
next
  fix lower :: "string \<Rightarrow> string" and variables :: "string Record" and c :: char and cs :: string
  have "length (dropWhile (\<lambda>x. x \<noteq> CHR ''}'') cs) \<le> length cs"
    by (rule length_dropWhile_le)
  then have "length (tl (dropWhile (\<lambda>x. x \<noteq> CHR ''}'') cs)) \<le> length cs"
    by simp
  then show "((lower, variables, tl (dropWhile (\<lambda>x. x \<noteq> CHR ''}'') cs)), (lower, variables, c # cs))
               \<in> measure (\<lambda>(lower, variables, s). length s)"
    by simp
next
  fix lower :: "string \<Rightarrow> string" and variables :: "string Record" and c :: char and cs :: string
  show "((lower, variables, cs), (lower, variables, c # cs))
          \<in> measure (\<lambda>(lower, variables, s). length s)"
    by simp
qed

definition substituteTemplateVars ::
  "(string \<Rightarrow> string) \<Rightarrow> string option \<Rightarrow> string Record option \<Rightarrow> string option" where
  "substituteTemplateVars lower template variables =
     (case (template, variables) of
        (Some t, Some vars) \<Rightarrow> if t = [] then template else Some (replaceTokens lower vars t)
      | _ \<Rightarrow> template)"

definition getDynamicPlaceholder ::
  "(string \<Rightarrow> string) \<Rightarrow> EnvVarMetadata \<Rightarrow> string Record option \<Rightarrow> string option" where
  "getDynamicPlaceholder lower envVar variables =
     substituteTemplateVars lower (ev_placeholder envVar) variables"

text \<open>\<^verbatim>\<open>...(placeholder ? { default: placeholder } : {})\<close>.\<close>

definition defaultFrom :: "string option \<Rightarrow> string option" where
  "defaultFrom placeholder = (if truthy placeholder then placeholder else None)"

text \<open>\<^verbatim>\<open>!input || input.trim() === ''\<close> on ASCII text.\<close>

definition isBlank :: "string \<Rightarrow> bool" where
  "isBlank s = list_all (\<lambda>c. c \<in> set [CHR '' '', CHR 0x09, CHR 0x0A, CHR 0x0B, CHR 0x0C, CHR 0x0D]) s"

text \<open>\<^verbatim>\<open>envVar.choices && envVar.choices.length > 0\<close>.\<close>

definition declaredChoices :: "EnvVarMetadata \<Rightarrow> string list" where
  "declaredChoices envVar = (case ev_choices envVar of None \<Rightarrow> [] | Some cs \<Rightarrow> cs)"

text \<open>The warning sign of the console message, as its UTF-8 bytes.\<close>

definition warningSign :: string where
  "warningSign = [CHR 0xE2, CHR 0x9A, CHR 0xA0, CHR 0xEF, CHR 0xB8, CHR 0x8F]"

text \<open>The branch of the loop body taken when the process environment has a value for the
  variable and the run is interactive and not quick.\<close>

definition promptWithEnvValue ::
  "Host \<Rightarrow> string \<Rightarrow> EnvVarMetadata \<Rightarrow> string \<Rightarrow> PromptState \<Rightarrow> PromptState" where
  "promptWithEnvValue host serverName envVar envValue st =
     (let env = fst st; trace = snd st;
          redactedValue = redactValue envValue (ev_isSecret envVar);
          useEnvChoice = redactedValue @ '' (environment)'';
          message = ''['' @ serverName @ ''] '' @ ev_name envVar
      in if declaredChoices envVar \<noteq> [] then
           (let choices = [useEnvChoice] @ declaredChoices envVar @ [''Enter custom value'']
                            @ (if \<not> ev_isRequired envVar then [''Skip (optional)''] else []);
                (v, trace1) = ask host (SelectPrompt message choices) trace
            in if v = useEnvChoice then (AList.update (ev_name envVar) envValue env, trace1)
               else if v = ''Skip (optional)'' then (env, trace1)
               else if v = ''Enter custom value'' then
                 (let (customValue, trace2) =
                        ask host (TextPrompt (ev_isSecret envVar) (message @ '' (enter value)'') None
                                    (ev_isRequired envVar)) trace1
                  in (AList.update (ev_name envVar) customValue env, trace2))
               else (AList.update (ev_name envVar) v env, trace1))
         else
           (let actionChoices = [(''Use '' @ useEnvChoice, ''use-env''), (''Enter new value'', ''enter-new'')]
                                  @ (if \<not> ev_isRequired envVar then [(''Skip (optional)'', ''skip'')] else []);
                (action, trace1) = ask host (ActionPrompt message actionChoices) trace
            in if action = ''use-env'' then (AList.update (ev_name envVar) envValue env, trace1)
               else if action = ''skip'' then (env, trace1)
               else
                 (let (newValue, trace2) =
                        ask host (TextPrompt (ev_isSecret envVar) (message @ '' (enter value)'') None
                                    (ev_isRequired envVar)) trace1
                  in (AList.update (ev_name envVar) newValue env, trace2))))"

text \<open>The body of the loop of \<^verbatim>\<open>promptForEnvVars\<close> for one variable.\<close>

definition promptForEnvVar ::
  "Host \<Rightarrow> string \<Rightarrow> PromptOptions \<Rightarrow> EnvVarMetadata \<Rightarrow> PromptState \<Rightarrow> PromptState" where
  "promptForEnvVar host serverName options envVar st =
     (let env = fst st; trace = snd st;
          envValue = map_of (processEnv host) (ev_name envVar);
          defaultValue = (case ev_default envVar of Some d \<Rightarrow> Some d | None \<Rightarrow> ev_value envVar);
          firstChoice = at (declaredChoices envVar) 0
      in if truthy defaultValue then
           (AList.update (ev_name envVar) (orEmpty defaultValue) env, trace)
         else if truthy envValue \<and> \<not> yes options \<and> isTTY host then
           promptWithEnvValue host serverName envVar (orEmpty envValue) st
         else if yes options then
           (if declaredChoices envVar \<noteq> [] \<and> truthy firstChoice then
              (AList.update (ev_name envVar) (orEmpty firstChoice) env, trace)
            else if ev_isRequired envVar then
              (env, trace @ [Logged (''   '' @ warningSign @ ''  Skipping '' @ ev_name envVar)])
            else st)
         else if declaredChoices envVar \<noteq> [] \<and> truthy firstChoice then
           (if isTTY host then
              (let choices = declaredChoices envVar
                               @ (if \<not> ev_isRequired envVar then [''Skip (optional)''] else []);
                   (v, trace1) =
                     ask host (SelectPrompt (''['' @ serverName @ ''] '' @ ev_name envVar) choices) trace
               in if v \<noteq> ''Skip (optional)'' then (AList.update (ev_name envVar) v env, trace1)
                  else (env, trace1))
            else (AList.update (ev_name envVar) (orEmpty firstChoice) env, trace))
         else if ev_isRequired envVar then
           (if isTTY host then
              (let placeholder = getDynamicPlaceholder (lowerCase host) envVar (templateVars options);
                   (v, trace1) =
                     ask host (TextPrompt (ev_isSecret envVar)
                                 (''['' @ serverName @ ''] '' @ ev_name envVar @ '' (required)'')
                                 (defaultFrom placeholder) True) trace
               in (AList.update (ev_name envVar) v env, trace1))
            else st)
         else if \<not> ev_isRequired envVar \<and> \<not> yes options \<and> isTTY host then
           (let (shouldSet, trace1) =
                  askConfirm host
                    (ConfirmPrompt (''['' @ serverName @ ''] Set optional '' @ ev_name envVar @ ''? (''
                                      @ (if ev_description envVar \<noteq> [] then ev_description envVar
                                         else ''optional'') @ '')'') False) trace
            in if shouldSet then
                 (let placeholder = getDynamicPlaceholder (lowerCase host) envVar (templateVars options);
                      (v, trace2) =
                        ask host (TextPrompt (ev_isSecret envVar)
                                    (''['' @ serverName @ ''] '' @ ev_name envVar)
                                    (defaultFrom placeholder) False) trace1
                  in if \<not> isBlank v then (AList.update (ev_name envVar) v env, trace2)
                     else (env, trace2))
               else (env, trace1))
         else st)"

text \<open>\<^verbatim>\<open>promptForEnvVars\<close>: the resolved values together with what was asked and printed.\<close>

definition promptForEnvVars ::
  "Host \<Rightarrow> string \<Rightarrow> EnvVarMetadata list \<Rightarrow> PromptOptions \<Rightarrow> PromptState" where
  "promptForEnvVars host serverName envVars options =
     fold (promptForEnvVar host serverName options) envVars ([], [])"

section \<open>Building a server configuration (\<^verbatim>\<open>buildServerConfig\<close>)\<close>

datatype TransportType = Stdio | StreamableHttp

record PackageConfig =
  registryType :: string
  pkg_identifier :: string
  transportType :: TransportType
  transportUrl :: "string option"
  environmentVariables :: "EnvVarMetadata list"
  packageArguments :: "CliArgMetadata list"

record ServerMetadata =
  meta_name :: string
  meta_description :: string
  meta_version :: string
  meta_title :: string
  packages :: "PackageConfig list"

text \<open>\<^verbatim>\<open>MetadataReader.getPackageForTransport\<close>.\<close>

definition getPackageForTransport :: "ServerMetadata \<Rightarrow> TransportType \<Rightarrow> PackageConfig option" where
  "getPackageForTransport metadata t = find (\<lambda>p. transportType p = t) (packages metadata)"

text \<open>The configuration written to the file. An optional field that is absent is \<open>None\<close>;
  \<open>Some []\<close> would be an empty array or an empty object. The stdio shape never carries a
  \<^verbatim>\<open>type\<close>, the http shape always has \<^verbatim>\<open>type: 'http'\<close>.\<close>

record ServerConfigStdio =
  command :: string
  args :: "string list option"
  env :: "string Record option"

record ServerConfigHttp =
  url :: string
  start :: "ServerConfigStdio option"

datatype ServerConfig = StdioServer ServerConfigStdio | HttpServer ServerConfigHttp

text \<open>The parameters of \<^verbatim>\<open>buildServerConfig\<close>. The metadata reader handed in is the
  \<^verbatim>\<open>MetadataReader\<close> above; \<^verbatim>\<open>optionalVarsToPrompt\<close> is a set of names, kept as a list;
  the optional flags \<^verbatim>\<open>useSource\<close> and \<^verbatim>\<open>quick\<close> are only tested for truthiness; a port
  is a natural number.\<close>

record BuildParams =
  combination :: Combination
  transport :: string
  packageName :: string
  packageDir :: "string option"
  binPath :: "string option"
  metadata :: ServerMetadata
  httpHost :: "string option"
  httpPort :: "nat option"
  useSource :: bool
  quick :: bool
  optionalVarsToPrompt :: "string list option"

datatype BuildError =
    NoTransportAvailable string
  | PackageDirRequired
  | BinPathRequired

text \<open>\<^verbatim>\<open>String(n)\<close> for a natural number.\<close>

definition digit :: "nat \<Rightarrow> char" where
  "digit n = ''0123456789'' ! (n mod 10)"

function showNat :: "nat \<Rightarrow> string" where
  "showNat n = (if n < 10 then [digit n] else showNat (n div 10) @ [digit n])"
  by pat_completeness auto
termination
  by (relation "measure id") auto

declare showNat.simps [simp del]

text \<open>The two loops that split \<^verbatim>\<open>dimensionValues\<close> by the package's argument names.\<close>

definition envDimensionsOf :: "string list \<Rightarrow> string Record \<Rightarrow> string Record" where
  "envDimensionsOf allPackageArgNames dims =
     fold (\<lambda>(key, v) acc. if key \<in> set allPackageArgNames then acc else AList.update key v acc)
          dims []"

definition argDimensionsOf :: "string list \<Rightarrow> string Record \<Rightarrow> string Record" where
  "argDimensionsOf allPackageArgNames dims =
     fold (\<lambda>(key, v) acc. if key \<in> set allPackageArgNames then AList.update key v acc else acc)
          dims []"

text \<open>The loop that keeps a default unless the first declared variable of that name fails
  its \<^verbatim>\<open>dependsOn\<close> condition.\<close>

definition filterDefaults :: "EnvVarMetadata list \<Rightarrow> Combination \<Rightarrow> string Record" where
  "filterDefaults allEnvVars c =
     fold (\<lambda>(envName, envValue) acc.
             case find (\<lambda>e. ev_name e = envName) allEnvVars of
               None \<Rightarrow> AList.update envName envValue acc
             | Some envVarMeta \<Rightarrow>
                 if shouldPromptEnvVar (ev_dependsOn envVarMeta) (dimensionValues c)
                 then AList.update envName envValue acc else acc)
          (defaults c) []"

definition envVarsToPromptOf ::
  "PackageConfig \<Rightarrow> BuildParams \<Rightarrow> string list \<Rightarrow> EnvVarMetadata list" where
  "envVarsToPromptOf pkg params prePopulatedEnvKeys =
     (let c = combination params;
          relevantEnvVars = filter (\<lambda>envVar. ev_name envVar \<in> set (envKeys c)) (environmentVariables pkg);
          envVarsMatchingDependsOn =
            filter (\<lambda>envVar. shouldPromptEnvVar (ev_dependsOn envVar) (dimensionValues c)) relevantEnvVars;
          allEnvVars = environmentVariables pkg
      in case optionalVarsToPrompt params of
           None \<Rightarrow>
             filter (\<lambda>envVar. ev_name envVar \<notin> set prePopulatedEnvKeys) envVarsMatchingDependsOn
         | Some selected \<Rightarrow>
             if selected = [] then
               filter (\<lambda>envVar. ev_name envVar \<notin> set prePopulatedEnvKeys \<and> ev_isRequired envVar)
                      envVarsMatchingDependsOn
             else
               (let requiredVars =
                      filter (\<lambda>envVar. ev_name envVar \<notin> set prePopulatedEnvKeys \<and> ev_isRequired envVar)
                             envVarsMatchingDependsOn;
                    selectedOptionalVars =
                      filter (\<lambda>envVar. \<not> ev_isRequired envVar
                                        \<and> ev_name envVar \<in> set selected
                                        \<and> ev_name envVar \<notin> set prePopulatedEnvKeys
                                        \<and> shouldPromptEnvVar (ev_dependsOn envVar) (dimensionValues c))
                             allEnvVars
                in requiredVars @ selectedOptionalVars))"

text \<open>The merged environment
  \<^verbatim>\<open>{ ...filteredDefaults, ...envDimensions, ...promptedEnv }\<close> of one call. The prompting
  function is a parameter of \<^verbatim>\<open>buildServerConfig\<close>, as in the source.\<close>

definition mergedEnv ::
  "(string \<Rightarrow> EnvVarMetadata list \<Rightarrow> PromptOptions \<Rightarrow> string Record)
     \<Rightarrow> PackageConfig \<Rightarrow> BuildParams \<Rightarrow> string Record" where
  "mergedEnv envPromptFn pkg params =
     (let c = combination params;
          allPackageArgNames = map arg_name (packageArguments pkg);
          envDimensions = envDimensionsOf allPackageArgNames (dimensionValues c);
          filteredDefaults = filterDefaults (environmentVariables pkg) c;
          prePopulatedEnvKeys = map fst filteredDefaults @ map fst envDimensions;
          envVarsToPrompt = envVarsToPromptOf pkg params prePopulatedEnvKeys;
          promptContext = name c @ ''/'' @ transport params;
          templateVars =
            (if truthy (httpHost params) then [(''HOST'', orEmpty (httpHost params))] else [])
            @ (case httpPort params of
                 None \<Rightarrow> []
               | Some p \<Rightarrow> if p \<noteq> 0 then [(''PORT'', showNat p)] else []);
          promptedEnv =
            envPromptFn promptContext envVarsToPrompt
              \<lparr>yes = quick params, templateVars = Some templateVars\<rparr>
      in spread (spread filteredDefaults envDimensions) promptedEnv)"

text \<open>The object literal
  \<^verbatim>\<open>{ command, ...(args.length > 0 && { args }), ...(Object.keys(env).length > 0 && { env }) }\<close>.\<close>

definition stdioShape :: "string \<Rightarrow> string list \<Rightarrow> string Record \<Rightarrow> ServerConfigStdio" where
  "stdioShape cmd as e =
     \<lparr>command = cmd,
      args = (if length as > 0 then Some as else None),
      env = (if length (map fst e) > 0 then Some e else None)\<rparr>"

text \<open>The command and its first arguments: \<^verbatim>\<open>node\<close> with the path of the bin entry
  in source mode, \<^verbatim>\<open>npx -y\<close> with the package name otherwise. The first parameter
  stands for \<^verbatim>\<open>path.join(path.resolve(packageDir), binPath)\<close> of the Node library. A
  thrown \<^verbatim>\<open>Error\<close> is the left summand.\<close>

definition baseInvocation ::
  "(string \<Rightarrow> string \<Rightarrow> string) \<Rightarrow> BuildParams \<Rightarrow> BuildError + (string \<times> string list)" where
  "baseInvocation resolveBinPath params =
     (if useSource params then
        (if \<not> truthy (packageDir params) then Inl PackageDirRequired
         else if \<not> truthy (binPath params) then Inl BinPathRequired
         else Inr (''node'', [resolveBinPath (orEmpty (packageDir params)) (orEmpty (binPath params))]))
      else Inr (''npx'', [''-y'', packageName params]))"

definition isHttpTransport :: "BuildParams \<Rightarrow> bool" where
  "isHttpTransport params = (transport params = ''http'' \<or> transport params = ''streamable-http'')"

definition portOf :: "BuildParams \<Rightarrow> nat" where
  "portOf params = (case httpPort params of None \<Rightarrow> 3000 | Some p \<Rightarrow> p)"

text \<open>The arguments pushed behind the first ones: two tokens for every entry of
  \<^verbatim>\<open>{ ...argDefaults, ...argDimensions }\<close>, then the port for an http transport.\<close>

definition withPackageArgs :: "PackageConfig \<Rightarrow> BuildParams \<Rightarrow> string list \<Rightarrow> string list" where
  "withPackageArgs pkg params args0 =
     (let c = combination params;
          allPackageArgNames = map arg_name (packageArguments pkg);
          argDimensions = argDimensionsOf allPackageArgNames (dimensionValues c);
          allArgValues = spread (argDefaults c) argDimensions;
          args1 = args0 @ concat (map (\<lambda>(argName, argValue). [argName, argValue]) allArgValues)
      in if isHttpTransport params then args1 @ [''--port'', showNat (portOf params)] else args1)"

text \<open>\<^verbatim>\<open>buildServerConfig\<close>.\<close>

definition buildServerConfig ::
  "(string \<Rightarrow> string \<Rightarrow> string)
     \<Rightarrow> (string \<Rightarrow> EnvVarMetadata list \<Rightarrow> PromptOptions \<Rightarrow> string Record)
     \<Rightarrow> BuildParams \<Rightarrow> BuildError + ServerConfig" where
  "buildServerConfig resolveBinPath envPromptFn params =
     (let transportType = (if transport params = ''http'' then StreamableHttp else Stdio)
      in case getPackageForTransport (metadata params) transportType of
           None \<Rightarrow> Inl (NoTransportAvailable (''No '' @ transport params @ '' transport available''))
         | Some pkg \<Rightarrow>
             (let e = mergedEnv envPromptFn pkg params
              in case baseInvocation resolveBinPath params of
                   Inl err \<Rightarrow> Inl err
                 | Inr (cmd, args0) \<Rightarrow>
                     (let as = withPackageArgs pkg params args0
                      in if isHttpTransport params then
                           Inr (HttpServer
                             \<lparr>url = ''http://''
                                      @ (case httpHost params of None \<Rightarrow> ''localhost'' | Some h \<Rightarrow> h)
                                      @ '':'' @ showNat (portOf params) @ ''/mcp'',
                              start = Some (stdioShape cmd as e)\<rparr>)
                         else Inr (StdioServer (stdioShape cmd as e)))))"

text \<open>The stdio-shaped object of a configuration: the configuration itself, or the
  \<^verbatim>\<open>start\<close> block of an http one.\<close>

fun stdioPart :: "ServerConfig \<Rightarrow> ServerConfigStdio option" where
  "stdioPart (StdioServer s) = Some s"
| "stdioPart (HttpServer h) = start h"

section \<open>The standalone validator (\<^verbatim>\<open>validate.ts\<close>)\<close>




datatype Severity = Error | Warning

record ValidationResult =
  valid :: bool
  severity :: "Severity option"
  message :: "string option"














section \<open>Notions used to state the properties\<close>

text \<open>A dimension that declares at least one choice, and the choices a dimension declares.\<close>

definition hasChoices :: "ProductDim \<Rightarrow> bool" where
  "hasChoices d = (case pd_choices d of None \<Rightarrow> False | Some cs \<Rightarrow> cs \<noteq> [])"

definition choicesOf :: "ProductDim \<Rightarrow> string list" where
  "choicesOf d = (case pd_choices d of None \<Rightarrow> [] | Some cs \<Rightarrow> cs)"

text \<open>A dimension that discriminates: its declared choice list has more than one entry.\<close>

definition isMulti :: "EnvVarChoices \<Rightarrow> bool" where
  "isMulti d = (1 < length (var_choices d))"

text \<open>The naming rule of the specification, following its words: the fragments
  \<open>{lowercased-dimension-name}-{chosen-value}\<close> joined by an underscore, and
  \<open>default\<close> when there is no fragment.\<close>

definition nameFrom :: "(string \<Rightarrow> string) \<Rightarrow> (string \<times> string) list \<Rightarrow> string" where
  "nameFrom lower fragments =
     (if fragments = [] then ''default''
      else join ''_'' (map (\<lambda>(n, v). lower n @ ''-'' @ v) fragments))"

text \<open>The primary and the conditional variables of an input, the conditional ones that
  apply to given dimension values, and the fragments of a name: for the dimensions with
  more than one choice among the given ones, in order, the name of the dimension with the
  value it has in the tuple of primary values, or with the value recorded for it.\<close>

definition primaryDimsOf :: "EnvVarChoices list \<Rightarrow> EnvVarChoices list" where
  "primaryDimsOf envVars = filter (\<lambda>e. var_dependsOn e = None) envVars"

definition conditionalDimsOf :: "EnvVarChoices list \<Rightarrow> EnvVarChoices list" where
  "conditionalDimsOf envVars = filter (\<lambda>e. var_dependsOn e \<noteq> None) envVars"

definition applicableTo :: "string Record \<Rightarrow> EnvVarChoices list \<Rightarrow> EnvVarChoices list" where
  "applicableTo selected conds = filter (\<lambda>cond. shouldPromptEnvVar (var_dependsOn cond) selected) conds"

definition tupleFragments :: "EnvVarChoices list \<Rightarrow> string list \<Rightarrow> (string \<times> string) list" where
  "tupleFragments dims tuple =
     map (\<lambda>(i, d). (var_name d, interpolate (at tuple i)))
         (filter (\<lambda>(i, d). isMulti d) (enumerate 0 dims))"

definition valueFragments :: "EnvVarChoices list \<Rightarrow> string Record \<Rightarrow> (string \<times> string) list" where
  "valueFragments dims recorded =
     map (\<lambda>d. (var_name d, interpolate (map_of recorded (var_name d)))) (filter isMulti dims)"

text \<open>The default of the second parameter of \<^verbatim>\<open>buildServerConfig\<close>:
  \<^verbatim>\<open>promptForEnvVars\<close> on a host, of which the resolved values are used.\<close>

definition promptWith ::
  "Host \<Rightarrow> string \<Rightarrow> EnvVarMetadata list \<Rightarrow> PromptOptions \<Rightarrow> string Record" where
  "promptWith host serverName envVars options = fst (promptForEnvVars host serverName envVars options)"

text \<open>An event that is not a prompt, and the warning quick mode prints for a variable.\<close>

fun notAsked :: "Event \<Rightarrow> bool" where
  "notAsked (Asked p) = False"
| "notAsked (Logged s) = True"

definition skipWarning :: "EnvVarMetadata \<Rightarrow> Event" where
  "skipWarning envVar = Logged (''   '' @ warningSign @ ''  Skipping '' @ ev_name envVar)"

text \<open>The package \<^verbatim>\<open>buildServerConfig\<close> selects for the transport it is given.\<close>

definition packageOf :: "BuildParams \<Rightarrow> PackageConfig option" where
  "packageOf params =
     getPackageForTransport (metadata params)
       (if transport params = ''http'' then StreamableHttp else Stdio)"




section \<open>Hosts, manifests and entries used as examples\<close>

text \<open>A host without terminal, and a terminal whose process environment has a value for
  \<open>LOG_LEVEL\<close>; a stand-in for the path functions of the Node library.\<close>

definition silentHost :: Host where
  "silentHost = \<lparr>processEnv = [], isTTY = False, answer = (\<lambda>trace p. []),
                 confirms = (\<lambda>trace p. False), lowerCase = asciiLowerCase\<rparr>"

definition ttyHost :: Host where
  "ttyHost = \<lparr>processEnv = [(''LOG_LEVEL'', ''warn'')], isTTY = True,
              answer = (\<lambda>trace p. ''debug''), confirms = (\<lambda>trace p. True),
              lowerCase = asciiLowerCase\<rparr>"

definition quickOptions :: PromptOptions where
  "quickOptions = \<lparr>yes = True, templateVars = None\<rparr>"

definition plainJoin :: "string \<Rightarrow> string \<Rightarrow> string" where
  "plainJoin dir file = dir @ ''/'' @ file"

text \<open>Declared variables: one with nothing but a name, one with two choices, and a
  required one whose first declared choice is the empty string.\<close>

definition plainVar :: "string \<Rightarrow> EnvVarMetadata" where
  "plainVar n = \<lparr>ev_name = n, ev_value = None, ev_default = None, ev_description = [],
                 ev_placeholder = None, ev_choices = None, ev_isRequired = False, ev_isSecret = False,
                 ev_isMandatoryForMatrix = None, ev_dependsOn = None\<rparr>"

definition logLevelVar :: EnvVarMetadata where
  "logLevelVar = (plainVar ''LOG_LEVEL'')\<lparr>ev_choices := Some [''info'', ''debug'']\<rparr>"

definition regionVar :: EnvVarMetadata where
  "regionVar = (plainVar ''REGION'')\<lparr>ev_choices := Some [[], ''eu''], ev_isRequired := True\<rparr>"






definition minimalParams :: BuildParams where
  "minimalParams =
     \<lparr>combination =
        \<lparr>name = ''minimal'', envKeys = [], argNames = [], defaults = [], argDefaults = [],
         dimensionValues = []\<rparr>,
      transport = ''stdio'', packageName = ''@org/server'', packageDir = None, binPath = None,
      metadata = \<lparr>meta_name = ''server'', meta_description = [], meta_version = ''1.0.0'',
                    meta_title = [],
                    packages = [\<lparr>registryType = ''npm'', pkg_identifier = ''@org/server'',
                                 transportType = Stdio, transportUrl = None,
                                 environmentVariables = [], packageArguments = []\<rparr>]\<rparr>,
      httpHost = None, httpPort = None, useSource = False, quick = False,
      optionalVarsToPrompt = None\<rparr>"





section \<open>The cartesian product\<close>

lemma concat_singletons: "concat (map (\<lambda>c. [[c]]) cs) = map (\<lambda>c. [c]) cs"
  by (induction cs) simp_all

text \<open>The product stops at the first dimension without choices: it is the product of the
  choice lists before that dimension.\<close>

lemma product_truncates:
  "generateCartesianProduct dims = product_lists (map choicesOf (takeWhile hasChoices dims))"
proof (induction dims)
  case Nil
  show ?case by simp
next
  case (Cons first rest)
  show ?case
  proof (cases "hasChoices first")
    case False
    then show ?thesis
      by (auto simp: hasChoices_def split: option.splits)
  next
    case True
    then obtain cs where cs: "pd_choices first = Some cs" "cs \<noteq> []"
      by (auto simp: hasChoices_def split: option.splits)
    show ?thesis
    proof (cases rest)
      case Nil
      with cs True show ?thesis
        by (simp add: choicesOf_def concat_singletons)
    next
      case (Cons r rs)
      with cs True Cons.IH show ?thesis
        by (simp add: choicesOf_def)
    qed
  qed
qed

lemma product_never_empty: "generateCartesianProduct dims \<noteq> []"
proof (induction dims)
  case Nil
  show ?case by simp
next
  case (Cons first rest)
  then show ?case
    by (cases "generateCartesianProduct rest") (auto split: option.splits simp: neq_Nil_conv)
qed

text \<open>
  C2 (cartesian completeness), as the code has it. For dimensions whose choice lists are
  all non-empty the result has as many tuples as the product of the lengths, its tuples are
  exactly the lists that pick one choice per dimension in dimension order, listed in the
  order of the nested loops; for no dimension it is the one empty tuple. The tuples are
  pairwise distinct when no dimension repeats a choice.
\<close>

theorem cartesian_completeness:
  assumes "\<forall>d \<in> set dims. hasChoices d"
  shows "length (generateCartesianProduct dims) = prod_list (map (\<lambda>d. length (choicesOf d)) dims)
       \<and> set (generateCartesianProduct dims) = {t. list_all2 (\<lambda>c d. c \<in> set (choicesOf d)) t dims}
       \<and> generateCartesianProduct dims = product_lists (map choicesOf dims)
       \<and> ((\<forall>d \<in> set dims. distinct (choicesOf d)) \<longrightarrow> distinct (generateCartesianProduct dims))
       \<and> generateCartesianProduct [] = [[]]"
proof -
  have tw: "takeWhile hasChoices dims = dims"
    using assms by (simp add: takeWhile_eq_all_conv)
  have eq: "generateCartesianProduct dims = product_lists (map choicesOf dims)"
    using product_truncates [of dims] tw by simp
  have len: "length (generateCartesianProduct dims) = prod_list (map (\<lambda>d. length (choicesOf d)) dims)"
    unfolding eq by (simp add: length_product_lists prod_list.eq_foldr comp_def)
  have mem: "set (generateCartesianProduct dims) = {t. list_all2 (\<lambda>c d. c \<in> set (choicesOf d)) t dims}"
    unfolding eq by (simp add: product_lists_set list_all2_map2)
  have dist: "(\<forall>d \<in> set dims. distinct (choicesOf d)) \<longrightarrow> distinct (generateCartesianProduct dims)"
    unfolding eq by (auto intro!: distinct_product_lists)
  from len mem eq dist show ?thesis
    by simp
qed

text \<open>Two dimensions of two choices each give the four tuples.\<close>

theorem cartesian_completeness_witness:
  "hasChoices \<lparr>pd_name = ''AUTH_MODE'', pd_choices = Some [''a'', ''b'']\<rparr>
   \<and> hasChoices \<lparr>pd_name = ''DCR_MODE'', pd_choices = Some [''x'', ''y'']\<rparr>
   \<and> distinct (choicesOf \<lparr>pd_name = ''AUTH_MODE'', pd_choices = Some [''a'', ''b'']\<rparr>)
   \<and> distinct (choicesOf \<lparr>pd_name = ''DCR_MODE'', pd_choices = Some [''x'', ''y'']\<rparr>)
   \<and> length (generateCartesianProduct
               [\<lparr>pd_name = ''AUTH_MODE'', pd_choices = Some [''a'', ''b'']\<rparr>,
                \<lparr>pd_name = ''DCR_MODE'', pd_choices = Some [''x'', ''y'']\<rparr>]) = 4
   \<and> distinct (generateCartesianProduct
               [\<lparr>pd_name = ''AUTH_MODE'', pd_choices = Some [''a'', ''b'']\<rparr>,
                \<lparr>pd_name = ''DCR_MODE'', pd_choices = Some [''x'', ''y'']\<rparr>])"
  using cartesian_completeness
          [of "[\<lparr>pd_name = ''AUTH_MODE'', pd_choices = Some [''a'', ''b'']\<rparr>,
                \<lparr>pd_name = ''DCR_MODE'', pd_choices = Some [''x'', ''y'']\<rparr>]"]
  by (simp add: hasChoices_def choicesOf_def)

text \<open>As the claim states it, distinctness fails: a dimension that declares the same choice
  twice yields the same tuple twice.\<close>

theorem cartesian_distinct_counterexample:
  "hasChoices \<lparr>pd_name = ''A'', pd_choices = Some [''x'', ''x'']\<rparr>
   \<and> \<not> distinct (generateCartesianProduct [\<lparr>pd_name = ''A'', pd_choices = Some [''x'', ''x'']\<rparr>])"
  by (simp add: hasChoices_def)

text \<open>
  C10 (dimensions without choices), as the code has it. A first dimension whose choices
  are missing or empty gives the one empty tuple, whatever follows. A dimension without
  choices at a later position does not give zero tuples: the result is the product of the
  dimensions in front of the first such dimension, so every tuple is cut off there, and the
  result is never empty.
\<close>

theorem empty_choices_truncate:
  "((pd_choices first = None \<or> pd_choices first = Some []) \<longrightarrow>
       generateCartesianProduct (first # rest) = [[]])
   \<and> generateCartesianProduct dims = generateCartesianProduct (takeWhile hasChoices dims)
   \<and> generateCartesianProduct dims = product_lists (map choicesOf (takeWhile hasChoices dims))
   \<and> generateCartesianProduct dims \<noteq> []"
proof -
  have "generateCartesianProduct (takeWhile hasChoices dims)
          = product_lists (map choicesOf (takeWhile hasChoices dims))"
    using product_truncates [of "takeWhile hasChoices dims"] by (simp only: takeWhile_idem)
  then have "generateCartesianProduct dims = generateCartesianProduct (takeWhile hasChoices dims)"
    using product_truncates [of dims] by simp
  moreover have "(pd_choices first = None \<or> pd_choices first = Some []) \<longrightarrow>
       generateCartesianProduct (first # rest) = [[]]"
    by auto
  ultimately show ?thesis
    using product_truncates [of dims] product_never_empty [of dims] by simp
qed

theorem empty_choices_truncate_witness:
  "(pd_choices \<lparr>pd_name = ''A'', pd_choices = None\<rparr> = None
      \<or> pd_choices \<lparr>pd_name = ''A'', pd_choices = None\<rparr> = Some [])
   \<and> generateCartesianProduct
        [\<lparr>pd_name = ''A'', pd_choices = None\<rparr>,
         \<lparr>pd_name = ''B'', pd_choices = Some [''b1'', ''b2'']\<rparr>] = [[]]"
  using empty_choices_truncate
          [of "\<lparr>pd_name = ''A'', pd_choices = None\<rparr>"
              "[\<lparr>pd_name = ''B'', pd_choices = Some [''b1'', ''b2'']\<rparr>]" "[]"]
  by simp

text \<open>An empty choice list in second position: one tuple, cut off after the first
  dimension, where the claim says there is none.\<close>

theorem empty_later_dimension_counterexample:
  "generateCartesianProduct
     [\<lparr>pd_name = ''A'', pd_choices = Some [''a'']\<rparr>,
      \<lparr>pd_name = ''B'', pd_choices = Some []\<rparr>] = [[''a'']]
   \<and> length (generateCartesianProduct
     [\<lparr>pd_name = ''A'', pd_choices = Some [''a'']\<rparr>,
      \<lparr>pd_name = ''B'', pd_choices = Some []\<rparr>]) \<noteq> 0"
  by simp

section \<open>Properties of the combination generators\<close>

lemma keys_assignValues_aux:
  "fst ` set (fold (\<lambda>(i, n) acc. AList.update n (orEmpty (at vs i)) acc) (enumerate k names) acc)
     = set names \<union> fst ` set acc"
  by (induction names arbitrary: k acc) (auto simp: dom_update)

lemma keys_assignValues: "fst ` set (assignValues names vs acc) = set names \<union> fst ` set acc"
  unfolding assignValues_def by (rule keys_assignValues_aux)

text \<open>What the assignment loop records for a name that is assigned once.\<close>

lemma assign_other:
  "n \<notin> set names \<Longrightarrow>
     map_of (fold (\<lambda>(i, n) acc. AList.update n (orEmpty (at vs i)) acc) (enumerate k names) acc) n
       = map_of acc n"
  by (induction names arbitrary: k acc) (simp_all add: update_conv')

lemma assign_nth:
  "distinct names \<Longrightarrow> i < length names \<Longrightarrow>
     map_of (fold (\<lambda>(i, n) acc. AList.update n (orEmpty (at vs i)) acc) (enumerate k names) acc)
            (names ! i)
       = Some (orEmpty (at vs (k + i)))"
proof (induction names arbitrary: k acc i)
  case Nil
  then show ?case by simp
next
  case (Cons n ns)
  show ?case
  proof (cases i)
    case 0
    with Cons.prems show ?thesis
      by (simp add: assign_other update_conv')
  next
    case (Suc j)
    with Cons.prems Cons.IH [of j "Suc k" "AList.update n (orEmpty (at vs k)) acc"] show ?thesis
      by simp
  qed
qed

lemma map_of_assignValues:
  "distinct names \<Longrightarrow> i < length names \<Longrightarrow>
     map_of (assignValues names vs []) (names ! i) = Some (orEmpty (at vs i))"
  unfolding assignValues_def using assign_nth [of names i vs 0 "[]"] by simp

lemma snd_filter_enumerate:
  "map snd (filter (\<lambda>(i, d). P d) (enumerate k xs)) = filter P xs"
  by (induction xs arbitrary: k) simp_all

text \<open>When the primary names are distinct and the tuple has a value for each of them, the
  fragments read from the tuple are those read from the recorded values.\<close>

lemma tuple_fragments_recorded:
  assumes "distinct (map var_name P)" and "length pv = length P"
  shows "tupleFragments P pv = valueFragments P (assignValues (map var_name P) pv [])"
proof -
  let ?base = "assignValues (map var_name P) pv []"
  let ?F = "filter (\<lambda>(i, d). isMulti d) (enumerate 0 P)"
  have same: "interpolate (at pv i) = interpolate (map_of ?base (var_name d))"
    if "(i, d) \<in> set (enumerate 0 P)" for i d
  proof -
    from that have i: "i < length P" and d: "d = P ! i"
      by (auto simp: in_set_enumerate_eq)
    from assms(1) i have "map_of ?base (map var_name P ! i) = Some (orEmpty (at pv i))"
      by (intro map_of_assignValues) simp_all
    with i d assms(2) show ?thesis
      by (simp add: at_def)
  qed
  have "tupleFragments P pv
          = map (\<lambda>(i, d). (var_name d, interpolate (map_of ?base (var_name d)))) ?F"
    unfolding tupleFragments_def using same by (intro map_cong refl) auto
  also have "\<dots> = map (\<lambda>d. (var_name d, interpolate (map_of ?base (var_name d)))) (map snd ?F)"
    by (simp add: comp_def case_prod_beta)
  also have "map snd ?F = filter isMulti P"
    by (rule snd_filter_enumerate)
  finally show ?thesis
    by (simp add: valueFragments_def)
qed

lemma matrix_keys:
  assumes "c \<in> set (generateMatrixCombinations lower envVars)"
  shows "fst ` set (dimensionValues c) = set (envKeys c) \<and> argNames c = []"
proof -
  from assms obtain vs where
    "dimensionValues c = assignValues (map var_name envVars) vs []"
    "envKeys c = map var_name envVars" "argNames c = []"
    by (auto simp: generateMatrixCombinations_def Let_def comp_def)
  then show ?thesis
    by (simp add: keys_assignValues)
qed

lemma nameFrom_tuple:
  "nameFrom lower (tupleFragments P pv)
     = (if filter (\<lambda>(i, dim). length (var_choices dim) > 1) (enumerate 0 P) \<noteq> []
        then join ''_'' (map (\<lambda>(i, dim). lower (var_name dim) @ ''-'' @ interpolate (at pv i))
                             (filter (\<lambda>(i, dim). length (var_choices dim) > 1) (enumerate 0 P)))
        else ''default'')"
  by (simp add: nameFrom_def tupleFragments_def isMulti_def split_def comp_def)

lemma isMulti_fun: "isMulti = (\<lambda>dim. length (var_choices dim) > 1)"
  by (simp add: fun_eq_iff isMulti_def)

lemma nameFrom_value:
  "nameFrom lower (valueFragments dims recorded)
     = (if filter (\<lambda>dim. length (var_choices dim) > 1) dims \<noteq> []
        then join ''_'' (map (\<lambda>dim. lower (var_name dim) @ ''-''
                                      @ interpolate (map_of recorded (var_name dim)))
                             (filter (\<lambda>dim. length (var_choices dim) > 1) dims))
        else ''default'')"
  unfolding nameFrom_def valueFragments_def isMulti_fun by (simp add: comp_def)

text \<open>The combinations the loop body pushes for one tuple of primary values, field by
  field: the name is made of the fragments of the active dimensions with more than one
  choice.\<close>

lemma combinationsFor_shape:
  assumes "c \<in> set (combinationsFor lower P C pv)"
  shows "envKeys c = map var_name (P @ applicableTo (assignValues (map var_name P) pv []) C)
       \<and> argNames c = [] \<and> defaults c = [] \<and> argDefaults c = []
       \<and> (if applicableTo (assignValues (map var_name P) pv []) C = []
          then dimensionValues c = assignValues (map var_name P) pv []
             \<and> name c = nameFrom lower (tupleFragments P pv)
          else (\<exists>cv \<in> set (generateCartesianProduct
                              (map asProductDim (applicableTo (assignValues (map var_name P) pv []) C))).
                  dimensionValues c
                    = assignValues (map var_name (applicableTo (assignValues (map var_name P) pv []) C))
                        cv (assignValues (map var_name P) pv []))
             \<and> name c = nameFrom lower
                 (valueFragments (P @ applicableTo (assignValues (map var_name P) pv []) C)
                    (dimensionValues c)))"
proof -
  define base where "base = assignValues (map var_name P) pv []"
  define app where "app = applicableTo base C"
  have app_filter: "filter (\<lambda>cond. shouldPromptEnvVar (var_dependsOn cond) base) C = app"
    by (simp add: app_def applicableTo_def)
  show ?thesis
  proof (cases "app = []")
    case True
    have "combinationsFor lower P C pv =
            [\<lparr>name = nameFrom lower (tupleFragments P pv), envKeys = map var_name P, argNames = [],
              defaults = [], argDefaults = [], dimensionValues = base\<rparr>]"
      using True
      unfolding combinationsFor_def Let_def base_def [symmetric] app_filter nameFrom_tuple
      by simp
    with assms True show ?thesis
      unfolding base_def [symmetric] app_def [symmetric] by simp
  next
    case False
    define mk where "mk = (\<lambda>condValues.
         \<lparr>name = nameFrom lower (valueFragments (P @ app) (assignValues (map var_name app) condValues base)),
          envKeys = map var_name (P @ app), argNames = [], defaults = [], argDefaults = [],
          dimensionValues = assignValues (map var_name app) condValues base\<rparr>)"
    have "combinationsFor lower P C pv = map mk (generateCartesianProduct (map asProductDim app))"
      using False
      unfolding combinationsFor_def Let_def base_def [symmetric] app_filter mk_def nameFrom_value
      by simp
    with assms obtain cv where cv: "cv \<in> set (generateCartesianProduct (map asProductDim app))"
      and c: "c = mk cv"
      by auto
    from c have "envKeys c = map var_name (P @ app)" "argNames c = []" "defaults c = []"
      "argDefaults c = []"
      "dimensionValues c = assignValues (map var_name app) cv base"
      "name c = nameFrom lower (valueFragments (P @ app) (dimensionValues c))"
      by (simp_all add: mk_def)
    with cv False show ?thesis
      unfolding base_def [symmetric] app_def [symmetric] by auto
  qed
qed

lemma combinationsFor_keys:
  assumes "c \<in> set (combinationsFor lower P C pv)"
  shows "fst ` set (dimensionValues c) = set (envKeys c) \<and> argNames c = []"
proof -
  define base where "base = assignValues (map var_name P) pv []"
  define app where "app = applicableTo base C"
  note shape = combinationsFor_shape [OF assms, unfolded base_def [symmetric] app_def [symmetric]]
  show ?thesis
  proof (cases "app = []")
    case True
    with shape show ?thesis
      by (simp add: base_def keys_assignValues)
  next
    case False
    with shape obtain cv where "dimensionValues c = assignValues (map var_name app) cv base"
      by auto
    with shape show ?thesis
      by (auto simp: base_def keys_assignValues)
  qed
qed

text \<open>With a primary variable every combination comes from the loop body, run on some
  tuple of the product of the primary dimensions.\<close>

lemma conditional_from_loop:
  assumes "c \<in> set (generateConditionalCombinations lower envVars)"
    and "primaryDimsOf envVars \<noteq> []"
  shows "\<exists>pv \<in> set (generateCartesianProduct (map asProductDim (primaryDimsOf envVars))).
           c \<in> set (combinationsFor lower (primaryDimsOf envVars) (conditionalDimsOf envVars) pv)"
  using assms
  by (auto simp: generateConditionalCombinations_def primaryDimsOf_def conditionalDimsOf_def Let_def)

lemma conditional_fallback:
  assumes "primaryDimsOf envVars = []"
  shows "generateConditionalCombinations lower envVars =
     [\<lparr>name = ''minimal'', envKeys = [], argNames = [], defaults = [],
       argDefaults = [], dimensionValues = []\<rparr>]"
  using assms by (simp add: generateConditionalCombinations_def primaryDimsOf_def)

lemma conditional_keys:
  assumes "c \<in> set (generateConditionalCombinations lower envVars)"
  shows "fst ` set (dimensionValues c) = set (envKeys c) \<and> argNames c = []"
proof (cases "primaryDimsOf envVars = []")
  case True
  with assms show ?thesis
    by (simp add: conditional_fallback)
next
  case False
  with assms obtain pv where
    "c \<in> set (combinationsFor lower (primaryDimsOf envVars) (conditionalDimsOf envVars) pv)"
    using conditional_from_loop by blast
  then show ?thesis
    by (rule combinationsFor_keys)
qed

lemma primary_tuple_length:
  assumes "pv \<in> set (generateCartesianProduct (map asProductDim P))"
    and "\<forall>p \<in> set P. var_choices p \<noteq> []"
  shows "length pv = length P"
proof -
  have "takeWhile hasChoices (map asProductDim P) = map asProductDim P"
    using assms(2) by (simp add: takeWhile_eq_all_conv hasChoices_def asProductDim_def)
  with assms(1) product_truncates [of "map asProductDim P"]
  have "pv \<in> set (product_lists (map choicesOf (map asProductDim P)))"
    by simp
  then show ?thesis
    using in_set_product_lists_length by fastforce
qed

text \<open>
  C1 (conditional pruning), as the code has it. A primary dimension \<open>A\<close> with the two
  different choices \<open>a1\<close>, \<open>a2\<close>, the second one not the empty string, and a conditional
  dimension \<open>B\<close> of another name with choices \<open>b1\<close>, \<open>b2\<close> that depends on \<open>A\<close> being
  \<open>a2\<close> give exactly three combinations: one for \<open>a1\<close> without any value for \<open>B\<close>, and one
  for \<open>a2\<close> with each choice of \<open>B\<close>; the names join the fragment of \<open>A\<close> and then that of
  \<open>B\<close> with an underscore.
\<close>

theorem conditional_pruning:
  assumes "A \<noteq> B" and "a1 \<noteq> a2" and "a2 \<noteq> []"
  shows "generateConditionalCombinations lower
     [\<lparr>var_name = A, var_choices = [a1, a2], var_dependsOn = None\<rparr>,
      \<lparr>var_name = B, var_choices = [b1, b2], var_dependsOn = Some [(A, [a2])]\<rparr>]
   = [\<lparr>name = lower A @ ''-'' @ a1, envKeys = [A], argNames = [], defaults = [],
        argDefaults = [], dimensionValues = [(A, a1)]\<rparr>,
      \<lparr>name = lower A @ ''-'' @ a2 @ ''_'' @ lower B @ ''-'' @ b1, envKeys = [A, B],
        argNames = [], defaults = [], argDefaults = [], dimensionValues = [(A, a2), (B, b1)]\<rparr>,
      \<lparr>name = lower A @ ''-'' @ a2 @ ''_'' @ lower B @ ''-'' @ b2, envKeys = [A, B],
        argNames = [], defaults = [], argDefaults = [], dimensionValues = [(A, a2), (B, b2)]\<rparr>]"
  using assms
  by (simp add: generateConditionalCombinations_def combinationsFor_def asProductDim_def
      assignValues_def at_def shouldPromptEnvVar_def Let_def)

text \<open>The scenario of the specification: \<open>AUTH_MODE\<close> and \<open>DCR_MODE\<close>.\<close>

theorem conditional_pruning_witness:
  "''AUTH_MODE'' \<noteq> ''DCR_MODE'' \<and> ''loopback-oauth'' \<noteq> ''dcr'' \<and> ''dcr'' \<noteq> []
   \<and> generateConditionalCombinations asciiLowerCase
     [\<lparr>var_name = ''AUTH_MODE'', var_choices = [''loopback-oauth'', ''dcr''], var_dependsOn = None\<rparr>,
      \<lparr>var_name = ''DCR_MODE'', var_choices = [''self-hosted'', ''external''],
        var_dependsOn = Some [(''AUTH_MODE'', [''dcr''])]\<rparr>]
   = [\<lparr>name = ''auth_mode-loopback-oauth'', envKeys = [''AUTH_MODE''], argNames = [], defaults = [],
        argDefaults = [], dimensionValues = [(''AUTH_MODE'', ''loopback-oauth'')]\<rparr>,
      \<lparr>name = ''auth_mode-dcr_dcr_mode-self-hosted'', envKeys = [''AUTH_MODE'', ''DCR_MODE''],
        argNames = [], defaults = [], argDefaults = [],
        dimensionValues = [(''AUTH_MODE'', ''dcr''), (''DCR_MODE'', ''self-hosted'')]\<rparr>,
      \<lparr>name = ''auth_mode-dcr_dcr_mode-external'', envKeys = [''AUTH_MODE'', ''DCR_MODE''],
        argNames = [], defaults = [], argDefaults = [],
        dimensionValues = [(''AUTH_MODE'', ''dcr''), (''DCR_MODE'', ''external'')]\<rparr>]"
  using conditional_pruning
          [of "''AUTH_MODE''" "''DCR_MODE''" "''loopback-oauth''" "''dcr''" asciiLowerCase
              "''self-hosted''" "''external''"]
  by (simp add: asciiLowerCase_def asciiLowerChar_def)

text \<open>As the claim states it, the count fails when the value the conditional dimension
  waits for is the empty string: an empty selected value counts as not selected, so \<open>B\<close>
  never applies and there are two combinations; both are primary-only.\<close>

theorem conditional_pruning_counterexample:
  "generateConditionalCombinations asciiLowerCase
     [\<lparr>var_name = ''A'', var_choices = [''a1'', ''''], var_dependsOn = None\<rparr>,
      \<lparr>var_name = ''B'', var_choices = [''b1'', ''b2''], var_dependsOn = Some [(''A'', [''''])]\<rparr>]
   = [\<lparr>name = ''a-a1'', envKeys = [''A''], argNames = [], defaults = [],
        argDefaults = [], dimensionValues = [(''A'', ''a1'')]\<rparr>,
      \<lparr>name = ''a-'', envKeys = [''A''], argNames = [], defaults = [],
        argDefaults = [], dimensionValues = [(''A'', '''')]\<rparr>]
   \<and> length (generateConditionalCombinations asciiLowerCase
     [\<lparr>var_name = ''A'', var_choices = [''a1'', ''''], var_dependsOn = None\<rparr>,
      \<lparr>var_name = ''B'', var_choices = [''b1'', ''b2''], var_dependsOn = Some [(''A'', [''''])]\<rparr>]) = 2"
  by (simp add: generateConditionalCombinations_def combinationsFor_def asProductDim_def
      assignValues_def at_def shouldPromptEnvVar_def Let_def asciiLowerCase_def asciiLowerChar_def)

text \<open>
  C3 (no-primary fallback). When every variable declares a \<open>dependsOn\<close> the result is the
  single combination named \<open>minimal\<close> with nothing in it; the conditional variables are
  dropped.
\<close>

theorem no_primary_fallback:
  assumes "\<forall>e \<in> set envVars. var_dependsOn e \<noteq> None"
  shows "generateConditionalCombinations lower envVars =
     [\<lparr>name = ''minimal'', envKeys = [], argNames = [], defaults = [],
       argDefaults = [], dimensionValues = []\<rparr>]"
proof -
  have "filter (\<lambda>e. var_dependsOn e = None) envVars = []"
    using assms by (simp add: filter_empty_conv)
  then show ?thesis
    by (simp add: generateConditionalCombinations_def)
qed

theorem no_primary_fallback_witness:
  "var_dependsOn \<lparr>var_name = ''DCR_MODE'', var_choices = [''self-hosted'', ''external''],
                  var_dependsOn = Some [(''AUTH_MODE'', [''dcr''])]\<rparr> \<noteq> None
   \<and> generateConditionalCombinations asciiLowerCase
       [\<lparr>var_name = ''DCR_MODE'', var_choices = [''self-hosted'', ''external''],
         var_dependsOn = Some [(''AUTH_MODE'', [''dcr''])]\<rparr>]
     = [\<lparr>name = ''minimal'', envKeys = [], argNames = [], defaults = [],
         argDefaults = [], dimensionValues = []\<rparr>]"
  using no_primary_fallback
          [of "[\<lparr>var_name = ''DCR_MODE'', var_choices = [''self-hosted'', ''external''],
                 var_dependsOn = Some [(''AUTH_MODE'', [''dcr''])]\<rparr>]" asciiLowerCase]
  by simp

text \<open>
  C4 (naming), as the code has it. Without a primary variable the one combination is named
  \<open>minimal\<close> and has no dimension. With a primary variable, every combination of
  \<open>generateConditionalCombinations\<close> belongs to a tuple of the product of the primary
  dimensions: its \<open>envKeys\<close> are the active dimensions (the primary ones, then the
  conditional ones that apply to the tuple), a value is recorded for each of them, and its
  name is the naming rule applied to the active dimensions with more than one declared
  choice, in order, each with its value: the value in the tuple when no conditional
  dimension applies, the recorded value otherwise, and the recorded value in both cases when
  the primary names are distinct and every primary dimension has a choice. So a dimension
  with a single choice adds no fragment, and the name is \<open>default\<close> when no active
  dimension has more than one choice. \<open>generateMatrixCombinations\<close> on no dimension gives
  the one combination \<open>minimal\<close>.
\<close>

theorem naming_rule:
  assumes "c \<in> set (generateConditionalCombinations lower envVars)"
  shows "(primaryDimsOf envVars = [] \<longrightarrow>
            name c = ''minimal'' \<and> envKeys c = [] \<and> dimensionValues c = [])
       \<and> (primaryDimsOf envVars \<noteq> [] \<longrightarrow>
            (\<exists>pv \<in> set (generateCartesianProduct (map asProductDim (primaryDimsOf envVars))).
               \<exists>app. app = applicableTo (assignValues (map var_name (primaryDimsOf envVars)) pv [])
                              (conditionalDimsOf envVars)
               \<and> envKeys c = map var_name (primaryDimsOf envVars @ app)
               \<and> fst ` set (dimensionValues c) = set (envKeys c)
               \<and> (if app = []
                  then dimensionValues c = assignValues (map var_name (primaryDimsOf envVars)) pv []
                     \<and> name c = nameFrom lower (tupleFragments (primaryDimsOf envVars) pv)
                  else (\<exists>cv \<in> set (generateCartesianProduct (map asProductDim app)).
                          dimensionValues c
                            = assignValues (map var_name app) cv
                                (assignValues (map var_name (primaryDimsOf envVars)) pv []))
                     \<and> name c = nameFrom lower
                         (valueFragments (primaryDimsOf envVars @ app) (dimensionValues c)))
               \<and> (filter isMulti (primaryDimsOf envVars @ app) = [] \<longrightarrow> name c = ''default'')
               \<and> (distinct (map var_name (primaryDimsOf envVars))
                    \<and> (\<forall>p \<in> set (primaryDimsOf envVars). var_choices p \<noteq> [])
                  \<longrightarrow> name c = nameFrom lower
                         (valueFragments (primaryDimsOf envVars @ app) (dimensionValues c)))))
       \<and> generateMatrixCombinations lower [] =
           [\<lparr>name = ''minimal'', envKeys = [], argNames = [], defaults = [],
             argDefaults = [], dimensionValues = []\<rparr>]"
proof -
  let ?P = "primaryDimsOf envVars"
  have fallback: "?P = [] \<longrightarrow> name c = ''minimal'' \<and> envKeys c = [] \<and> dimensionValues c = []"
    using assms by (auto simp: conditional_fallback)
  have matrix: "generateMatrixCombinations lower [] =
           [\<lparr>name = ''minimal'', envKeys = [], argNames = [], defaults = [],
             argDefaults = [], dimensionValues = []\<rparr>]"
    by (simp add: generateMatrixCombinations_def assignValues_def)
  have loop: "\<exists>pv \<in> set (generateCartesianProduct (map asProductDim ?P)).
               \<exists>app. app = applicableTo (assignValues (map var_name ?P) pv []) (conditionalDimsOf envVars)
               \<and> envKeys c = map var_name (?P @ app)
               \<and> fst ` set (dimensionValues c) = set (envKeys c)
               \<and> (if app = []
                  then dimensionValues c = assignValues (map var_name ?P) pv []
                     \<and> name c = nameFrom lower (tupleFragments ?P pv)
                  else (\<exists>cv \<in> set (generateCartesianProduct (map asProductDim app)).
                          dimensionValues c
                            = assignValues (map var_name app) cv (assignValues (map var_name ?P) pv []))
                     \<and> name c = nameFrom lower (valueFragments (?P @ app) (dimensionValues c)))
               \<and> (filter isMulti (?P @ app) = [] \<longrightarrow> name c = ''default'')
               \<and> (distinct (map var_name ?P) \<and> (\<forall>p \<in> set ?P. var_choices p \<noteq> [])
                  \<longrightarrow> name c = nameFrom lower (valueFragments (?P @ app) (dimensionValues c)))"
    if prim: "?P \<noteq> []"
  proof -
    from conditional_from_loop [OF assms prim] obtain pv where
      pv: "pv \<in> set (generateCartesianProduct (map asProductDim ?P))"
      and c: "c \<in> set (combinationsFor lower ?P (conditionalDimsOf envVars) pv)"
      by blast
    define base where "base = assignValues (map var_name ?P) pv []"
    define app where "app = applicableTo base (conditionalDimsOf envVars)"
    note shape = combinationsFor_shape [OF c, unfolded base_def [symmetric] app_def [symmetric]]
    have keys: "fst ` set (dimensionValues c) = set (envKeys c)"
      using combinationsFor_keys [OF c] by simp
    have named: "if app = []
                  then dimensionValues c = base \<and> name c = nameFrom lower (tupleFragments ?P pv)
                  else (\<exists>cv \<in> set (generateCartesianProduct (map asProductDim app)).
                          dimensionValues c = assignValues (map var_name app) cv base)
                     \<and> name c = nameFrom lower (valueFragments (?P @ app) (dimensionValues c))"
      using shape by simp
    have recorded: "name c = nameFrom lower (valueFragments (?P @ app) (dimensionValues c))"
      if wf: "distinct (map var_name ?P) \<and> (\<forall>p \<in> set ?P. var_choices p \<noteq> [])"
    proof (cases "app = []")
      case True
      from wf pv have "length pv = length ?P"
        by (intro primary_tuple_length) simp_all
      with wf have "tupleFragments ?P pv = valueFragments ?P base"
        unfolding base_def by (intro tuple_fragments_recorded) simp_all
      with named True show ?thesis
        by simp
    next
      case False
      with named show ?thesis
        by simp
    qed
    have dflt: "name c = ''default''" if none: "filter isMulti (?P @ app) = []"
    proof (cases "app = []")
      case True
      with none have "tupleFragments ?P pv = []"
        using snd_filter_enumerate [of isMulti 0 ?P]
        by (simp add: tupleFragments_def)
      with named True show ?thesis
        by (simp add: nameFrom_def)
    next
      case False
      with named none show ?thesis
        by (simp add: nameFrom_def valueFragments_def)
    qed
    have keysOf: "envKeys c = map var_name (?P @ app)"
      using shape by simp
    have "\<exists>app. app = applicableTo base (conditionalDimsOf envVars)
               \<and> envKeys c = map var_name (?P @ app)
               \<and> fst ` set (dimensionValues c) = set (envKeys c)
               \<and> (if app = []
                  then dimensionValues c = base
                     \<and> name c = nameFrom lower (tupleFragments ?P pv)
                  else (\<exists>cv \<in> set (generateCartesianProduct (map asProductDim app)).
                          dimensionValues c = assignValues (map var_name app) cv base)
                     \<and> name c = nameFrom lower (valueFragments (?P @ app) (dimensionValues c)))
               \<and> (filter isMulti (?P @ app) = [] \<longrightarrow> name c = ''default'')
               \<and> (distinct (map var_name ?P) \<and> (\<forall>p \<in> set ?P. var_choices p \<noteq> [])
                  \<longrightarrow> name c = nameFrom lower (valueFragments (?P @ app) (dimensionValues c)))"
    proof (intro exI [of _ app] conjI impI)
      show "app = applicableTo base (conditionalDimsOf envVars)"
        by (rule app_def)
      show "envKeys c = map var_name (?P @ app)"
        by (rule keysOf)
      show "fst ` set (dimensionValues c) = set (envKeys c)"
        by (rule keys)
      show "if app = []
                  then dimensionValues c = base
                     \<and> name c = nameFrom lower (tupleFragments ?P pv)
                  else (\<exists>cv \<in> set (generateCartesianProduct (map asProductDim app)).
                          dimensionValues c = assignValues (map var_name app) cv base)
                     \<and> name c = nameFrom lower (valueFragments (?P @ app) (dimensionValues c))"
        by (rule named)
      show "name c = ''default''" if "filter isMulti (?P @ app) = []"
        using that by (rule dflt)
      show "name c = nameFrom lower (valueFragments (?P @ app) (dimensionValues c))"
        if "distinct (map var_name ?P) \<and> (\<forall>p \<in> set ?P. var_choices p \<noteq> [])"
        using that by (rule recorded)
    qed
    with pv show ?thesis
      unfolding base_def by blast
  qed
  from fallback loop matrix show ?thesis
    by blast
qed

text \<open>The test of the repository: \<open>DCR_MODE\<close> has one choice and is left out of the
  name, yet its value is recorded.\<close>

theorem naming_rule_witness:
  "\<lparr>name = ''auth_mode-dcr'', envKeys = [''AUTH_MODE'', ''DCR_MODE''], argNames = [], defaults = [],
     argDefaults = [], dimensionValues = [(''AUTH_MODE'', ''dcr''), (''DCR_MODE'', ''self-hosted'')]\<rparr>
     \<in> set (generateConditionalCombinations asciiLowerCase
         [\<lparr>var_name = ''AUTH_MODE'', var_choices = [''loopback-oauth'', ''dcr''], var_dependsOn = None\<rparr>,
          \<lparr>var_name = ''DCR_MODE'', var_choices = [''self-hosted''],
            var_dependsOn = Some [(''AUTH_MODE'', [''dcr''])]\<rparr>])
   \<and> primaryDimsOf
         [\<lparr>var_name = ''AUTH_MODE'', var_choices = [''loopback-oauth'', ''dcr''], var_dependsOn = None\<rparr>,
          \<lparr>var_name = ''DCR_MODE'', var_choices = [''self-hosted''],
            var_dependsOn = Some [(''AUTH_MODE'', [''dcr''])]\<rparr>]
       = [\<lparr>var_name = ''AUTH_MODE'', var_choices = [''loopback-oauth'', ''dcr''], var_dependsOn = None\<rparr>]
   \<and> nameFrom asciiLowerCase
        (valueFragments
           [\<lparr>var_name = ''AUTH_MODE'', var_choices = [''loopback-oauth'', ''dcr''], var_dependsOn = None\<rparr>,
            \<lparr>var_name = ''DCR_MODE'', var_choices = [''self-hosted''],
              var_dependsOn = Some [(''AUTH_MODE'', [''dcr''])]\<rparr>]
           [(''AUTH_MODE'', ''dcr''), (''DCR_MODE'', ''self-hosted'')])
       = ''auth_mode-dcr''
   \<and> generateMatrixCombinations asciiLowerCase [] =
           [\<lparr>name = ''minimal'', envKeys = [], argNames = [], defaults = [],
             argDefaults = [], dimensionValues = []\<rparr>]"
proof -
  let ?c = "\<lparr>name = ''auth_mode-dcr'', envKeys = [''AUTH_MODE'', ''DCR_MODE''], argNames = [],
             defaults = [], argDefaults = [],
             dimensionValues = [(''AUTH_MODE'', ''dcr''), (''DCR_MODE'', ''self-hosted'')]\<rparr>"
  let ?vars = "[\<lparr>var_name = ''AUTH_MODE'', var_choices = [''loopback-oauth'', ''dcr''], var_dependsOn = None\<rparr>,
          \<lparr>var_name = ''DCR_MODE'', var_choices = [''self-hosted''],
            var_dependsOn = Some [(''AUTH_MODE'', [''dcr''])]\<rparr>]"
  have mem: "?c \<in> set (generateConditionalCombinations asciiLowerCase ?vars)"
    by (simp add: generateConditionalCombinations_def combinationsFor_def asProductDim_def
        assignValues_def at_def shouldPromptEnvVar_def Let_def asciiLowerCase_def asciiLowerChar_def)
  have prim: "primaryDimsOf ?vars
                = [\<lparr>var_name = ''AUTH_MODE'', var_choices = [''loopback-oauth'', ''dcr''], var_dependsOn = None\<rparr>]"
    by (simp add: primaryDimsOf_def)
  have frag: "nameFrom asciiLowerCase (valueFragments ?vars [(''AUTH_MODE'', ''dcr''), (''DCR_MODE'', ''self-hosted'')])
                = ''auth_mode-dcr''"
    by (simp add: nameFrom_def valueFragments_def isMulti_def asciiLowerCase_def asciiLowerChar_def)
  from naming_rule [OF mem] mem prim frag show ?thesis
    by simp
qed

text \<open>As the claim states it, the default name fails for the fallback: with no primary
  variable there is no active dimension at all, and the name is \<open>minimal\<close>.\<close>

theorem naming_default_counterexample:
  "map name (generateConditionalCombinations asciiLowerCase []) = [''minimal'']
   \<and> map envKeys (generateConditionalCombinations asciiLowerCase []) = [[]]
   \<and> ''minimal'' \<noteq> ''default''"
  by (simp add: generateConditionalCombinations_def)

text \<open>
  C8 (combination invariant). In every combination of either generator the keys of
  \<open>dimensionValues\<close> are among \<open>envKeys\<close> and \<open>argNames\<close>.
\<close>

theorem combination_invariant:
  assumes "c \<in> set (generateMatrixCombinations lower xs)
             \<or> c \<in> set (generateConditionalCombinations lower ys)"
  shows "fst ` set (dimensionValues c) \<subseteq> set (envKeys c) \<union> set (argNames c)"
  using assms matrix_keys [of c lower xs] conditional_keys [of c lower ys] by auto

theorem combination_invariant_witness:
  "\<lparr>name = ''auth_mode-dcr'', envKeys = [''AUTH_MODE'', ''DCR_MODE''], argNames = [], defaults = [],
     argDefaults = [], dimensionValues = [(''AUTH_MODE'', ''dcr''), (''DCR_MODE'', ''self-hosted'')]\<rparr>
     \<in> set (generateConditionalCombinations asciiLowerCase
         [\<lparr>var_name = ''AUTH_MODE'', var_choices = [''loopback-oauth'', ''dcr''], var_dependsOn = None\<rparr>,
          \<lparr>var_name = ''DCR_MODE'', var_choices = [''self-hosted''],
            var_dependsOn = Some [(''AUTH_MODE'', [''dcr''])]\<rparr>])
   \<and> fst ` set [(''AUTH_MODE'', ''dcr''), (''DCR_MODE'', ''self-hosted'')]
       \<subseteq> set [''AUTH_MODE'', ''DCR_MODE''] \<union> set []"
proof -
  let ?c = "\<lparr>name = ''auth_mode-dcr'', envKeys = [''AUTH_MODE'', ''DCR_MODE''], argNames = [],
             defaults = [], argDefaults = [],
             dimensionValues = [(''AUTH_MODE'', ''dcr''), (''DCR_MODE'', ''self-hosted'')]\<rparr>"
  let ?vars = "[\<lparr>var_name = ''AUTH_MODE'', var_choices = [''loopback-oauth'', ''dcr''], var_dependsOn = None\<rparr>,
          \<lparr>var_name = ''DCR_MODE'', var_choices = [''self-hosted''],
            var_dependsOn = Some [(''AUTH_MODE'', [''dcr''])]\<rparr>]"
  have mem: "?c \<in> set (generateConditionalCombinations asciiLowerCase ?vars)"
    by (simp add: generateConditionalCombinations_def combinationsFor_def asProductDim_def
        assignValues_def at_def shouldPromptEnvVar_def Let_def asciiLowerCase_def asciiLowerChar_def)
  from combination_invariant [of ?c asciiLowerCase "[]" ?vars] mem show ?thesis
    by simp
qed

section \<open>Properties of prompting\<close>

lemma quick_step:
  assumes "yes options" and "ev_default v = None" and "ev_value v = None"
  shows "promptForEnvVar host srv options v (resolved, trace) =
           (if declaredChoices v \<noteq> [] \<and> hd (declaredChoices v) \<noteq> []
            then (AList.update (ev_name v) (hd (declaredChoices v)) resolved, trace)
            else if ev_isRequired v then (resolved, trace @ [skipWarning v])
            else (resolved, trace))"
  using assms
  by (cases "declaredChoices v") (simp_all add: promptForEnvVar_def at_def skipWarning_def)

lemma quick_step_trace:
  assumes "yes options" and "list_all notAsked (snd st)"
  shows "list_all notAsked (snd (promptForEnvVar host srv options v st))"
  using assms
  by (simp add: promptForEnvVar_def Let_def)

lemma quick_fold_trace:
  assumes "yes options" and "list_all notAsked (snd st)"
  shows "list_all notAsked (snd (fold (promptForEnvVar host srv options) vars st))"
  using assms(2)
proof (induction vars arbitrary: st)
  case Nil
  then show ?case by simp
next
  case (Cons v vars)
  from quick_step_trace [OF assms(1) Cons.prems]
  have "list_all notAsked (snd (promptForEnvVar host srv options v st))" .
  then show ?case
    using Cons.IH by simp
qed

lemma keys_update_subset: "fst ` set (AList.update k v al) \<subseteq> insert k (fst ` set al)"
  by (simp add: dom_update)





text \<open>
  C9 (quick-mode resolution), as the code has it. In quick mode a variable without declared
  default or value resolves to its first declared choice when it declares choices and the
  first one is not the empty string; otherwise it is skipped, with a warning when it is
  required and silently when it is optional. No run of \<open>promptForEnvVars\<close> in quick mode
  asks anything.
\<close>

theorem quick_mode_resolution:
  assumes "yes options" and "ev_default v = None" and "ev_value v = None"
  shows "promptForEnvVar host srv options v (resolved, trace) =
           (if declaredChoices v \<noteq> [] \<and> hd (declaredChoices v) \<noteq> []
            then (AList.update (ev_name v) (hd (declaredChoices v)) resolved, trace)
            else if ev_isRequired v then (resolved, trace @ [skipWarning v])
            else (resolved, trace))
       \<and> list_all notAsked (snd (promptForEnvVars host srv vars options))"
proof -
  have "list_all notAsked (snd (promptForEnvVars host srv vars options))"
    unfolding promptForEnvVars_def using assms(1) by (intro quick_fold_trace) simp_all
  with quick_step [OF assms] show ?thesis
    by simp
qed

text \<open>On a terminal, with a value for the variable in the process environment, quick mode
  still takes the first choice and asks nothing.\<close>

theorem quick_mode_resolution_witness:
  "yes quickOptions \<and> ev_default logLevelVar = None \<and> ev_value logLevelVar = None
   \<and> promptForEnvVar ttyHost ''srv'' quickOptions logLevelVar ([], []) = ([(''LOG_LEVEL'', ''info'')], [])
   \<and> promptForEnvVars ttyHost ''srv'' [logLevelVar] quickOptions = ([(''LOG_LEVEL'', ''info'')], [])"
  using quick_mode_resolution [of quickOptions logLevelVar ttyHost "''srv''" "[]" "[]" "[logLevelVar]"]
  by (simp add: quickOptions_def logLevelVar_def plainVar_def declaredChoices_def promptForEnvVars_def)

text \<open>As the claim states it, the first choice is not always used: a required variable
  whose first declared choice is the empty string is skipped with the warning.\<close>

theorem quick_mode_first_choice_counterexample:
  "yes quickOptions \<and> ev_default regionVar = None \<and> ev_value regionVar = None
   \<and> declaredChoices regionVar = [[], ''eu'']
   \<and> promptForEnvVars ttyHost ''srv'' [regionVar] quickOptions = ([], [skipWarning regionVar])"
  by (simp add: quickOptions_def regionVar_def plainVar_def declaredChoices_def promptForEnvVars_def
      promptForEnvVar_def at_def skipWarning_def)

section \<open>Properties of built configurations\<close>








lemma stdioShape_fields:
  "command (stdioShape cmd as e) = cmd
   \<and> args (stdioShape cmd as e) = (if as = [] then None else Some as)
   \<and> env (stdioShape cmd as e) = (if e = [] then None else Some e)"
  by (simp add: stdioShape_def)

lemma baseInvocation_args:
  assumes "baseInvocation resolveBinPath params = Inr (cmd, args0)"
  shows "args0 \<noteq> []"
  using assms by (auto simp: baseInvocation_def split: if_splits)

lemma withPackageArgs_nonempty: "args0 \<noteq> [] \<Longrightarrow> withPackageArgs pkg params args0 \<noteq> []"
  by (simp add: withPackageArgs_def Let_def)

lemma build_result:
  assumes "buildServerConfig resolveBinPath envPromptFn params = Inr cfg"
  shows "\<exists>pkg cmd as. packageOf params = Some pkg \<and> as \<noteq> []
          \<and> stdioPart cfg = Some (stdioShape cmd as (mergedEnv envPromptFn pkg params))"
proof (cases "packageOf params")
  case None
  with assms show ?thesis
    by (simp add: buildServerConfig_def packageOf_def)
next
  case (Some pkg)
  show ?thesis
  proof (cases "baseInvocation resolveBinPath params")
    case (Inl err)
    with assms Some show ?thesis
      by (simp add: buildServerConfig_def packageOf_def)
  next
    case (Inr inv)
    obtain cmd args0 where inv: "inv = (cmd, args0)"
      by (cases inv)
    from Inr inv have ne: "withPackageArgs pkg params args0 \<noteq> []"
      by (intro withPackageArgs_nonempty baseInvocation_args [of resolveBinPath params cmd]) simp
    from assms Some Inr inv
    have "stdioPart cfg
            = Some (stdioShape cmd (withPackageArgs pkg params args0) (mergedEnv envPromptFn pkg params))"
      by (auto simp: buildServerConfig_def packageOf_def Let_def split: if_splits)
    with Some ne show ?thesis
      by blast
  qed
qed

text \<open>
  C7 (empty-field omission). Whenever \<open>buildServerConfig\<close> returns a configuration, its
  stdio-shaped object (the configuration itself, or the \<open>start\<close> block of an http one)
  has no \<open>env\<close> key when the merged environment is empty and carries the merged
  environment otherwise; it never has an empty \<open>env\<close> object nor an empty \<open>args\<close>
  array.
\<close>

theorem empty_fields_omitted:
  assumes "buildServerConfig resolveBinPath envPromptFn params = Inr cfg"
  shows "\<exists>pkg s. packageOf params = Some pkg \<and> stdioPart cfg = Some s
           \<and> env s = (if mergedEnv envPromptFn pkg params = [] then None
                       else Some (mergedEnv envPromptFn pkg params))
           \<and> env s \<noteq> Some [] \<and> args s \<noteq> Some []"
proof -
  from build_result [OF assms] obtain pkg cmd as where
    r: "packageOf params = Some pkg" "as \<noteq> []"
       "stdioPart cfg = Some (stdioShape cmd as (mergedEnv envPromptFn pkg params))"
    by blast
  then show ?thesis
    by (simp add: stdioShape_fields)
qed

text \<open>The scenario of the specification: no dimension, installed mode.\<close>

theorem empty_fields_omitted_witness:
  "buildServerConfig plainJoin (promptWith silentHost) minimalParams
     = Inr (StdioServer \<lparr>command = ''npx'', args = Some [''-y'', ''@org/server''], env = None\<rparr>)"
proof -
  have run: "buildServerConfig plainJoin (promptWith silentHost) minimalParams
     = Inr (StdioServer \<lparr>command = ''npx'', args = Some [''-y'', ''@org/server''], env = None\<rparr>)"
    by code_simp
  from empty_fields_omitted [OF run] run show ?thesis
    by simp
qed






section \<open>Properties of the validator\<close>










end
